theory Spec2Isabelle
  imports Complex_Main "HOL-Library.Sublist"
begin

section \<open>Parameter selection of q2mm (parameters.py)\<close>

text \<open>
  The module selects parameters of a force field by type or through a selection file,
  gathers the bond and angle values of MacroModel structures by force-field row, reports
  the selected parameters that no structure uses and replaces equilibrium values by
  averages. The embedding follows \<^verbatim>\<open>parameters.py\<close> function by function.

  Conventions of the embedding:
  \<^item> Python objects that are mutated and shared (the \<^verbatim>\<open>Param\<close> objects of
    \<^verbatim>\<open>ff.params\<close>) live in an explicit store; a list of parameters is a list of
    references into it.
  \<^item> The module never computes with the values of parameters, bonds and angles itself:
    it stores them, copies them and hands lists of them to \<^verbatim>\<open>np.mean\<close>. Their type is
    therefore a type parameter \<open>'v\<close>, and \<^verbatim>\<open>np.mean\<close> is a function that the averaging
    takes as an argument. The program runs on IEEE doubles; they and the mean that numpy
    computes on them are modelled in a section of their own.
  \<^item> An exception is a value of \<open>py_error\<close>; a function that can raise returns a sum.
  \<^item> The collaborators that are not part of the module (the force-field reader, the
    MacroModel reader, the file system, numpy) are fields of a record \<open>world\<close>.
\<close>

subsection \<open>Data\<close>

datatype py_error = AssertionError | IOError | ValueError | IndexError | TypeError

text \<open>
  A \<^verbatim>\<open>Param\<close> object: \<^verbatim>\<open>ptype\<close>, \<^verbatim>\<open>mm3_row\<close>, \<^verbatim>\<open>mm3_col\<close>,
  \<^verbatim>\<open>value\<close> (here \<open>pvalue\<close>) and \<^verbatim>\<open>_allow_negative\<close>, which the module sets to
  \<^verbatim>\<open>None\<close> or \<^verbatim>\<open>True\<close>.
\<close>

record 'v param =
  ptype :: string
  mm3_row :: int
  mm3_col :: int
  pvalue :: 'v
  allow_negative :: "bool option"

type_synonym ref = nat
type_synonym 'v heap = "ref \<Rightarrow> 'v param"

text \<open>A bond or an angle of a structure: \<^verbatim>\<open>ff_row\<close> and \<^verbatim>\<open>value\<close> (here \<open>ovalue\<close>).\<close>

record 'v observation =
  ff_row :: int
  ovalue :: 'v

record 'v mm_structure =
  bonds :: "'v observation list"
  angles :: "'v observation list"

record 'v macromodel =
  structures :: "'v mm_structure list"

text \<open>\<^verbatim>\<open>bond_dic\<close> and \<^verbatim>\<open>angle_dic\<close>: dictionaries from a row to the list of its values.\<close>

type_synonym 'v dic = "int \<rightharpoonup> 'v list"

text \<open>A line of the selection file, parsed: \<^verbatim>\<open>(mm3_row, mm3_col, allow_negative)\<close>.\<close>

type_synonym temp_param = "int \<times> int \<times> bool option"

definition ALL_PARM_TYPES :: "string list" where
  "ALL_PARM_TYPES = [''ae'', ''af'', ''be'', ''bf'', ''df'', ''imp1'', ''imp2'',
                     ''sb'', ''q'', ''vdwe'', ''vdwr'']"

subsection \<open>Strings: lines, \<^verbatim>\<open>partition\<close>, \<^verbatim>\<open>split\<close>, \<^verbatim>\<open>int\<close>, \<^verbatim>\<open>in\<close>\<close>

text \<open>Iterating over a file yields its lines, each with its terminating newline.\<close>

fun readlines :: "string \<Rightarrow> string list" where
  "readlines [] = []"
| "readlines (c # cs) =
     (if c = CHR 0x0A then [c] # readlines cs
      else (case readlines cs of [] \<Rightarrow> [[c]] | l # ls \<Rightarrow> (c # l) # ls))"

text \<open>\<^verbatim>\<open>line.partition('#')[0]\<close>: the text before the first \<^verbatim>\<open>#\<close>.\<close>

definition before_hash :: "string \<Rightarrow> string" where
  "before_hash line = takeWhile (\<lambda>c. c \<noteq> CHR ''#'') line"

text \<open>The whitespace of \<^verbatim>\<open>str.split()\<close> on a byte string.\<close>

definition is_space :: "char \<Rightarrow> bool" where
  "is_space c = (c = CHR 0x20 \<or> c = CHR 0x09 \<or> c = CHR 0x0A \<or> c = CHR 0x0B
                 \<or> c = CHR 0x0C \<or> c = CHR 0x0D)"

text \<open>
  \<^verbatim>\<open>str.split()\<close>: the maximal runs of characters that are not whitespace. The first
  argument is the run being read.
\<close>

fun split_from :: "string \<Rightarrow> string \<Rightarrow> string list" where
  "split_from cur [] = (if cur = [] then [] else [cur])"
| "split_from cur (c # cs) =
     (if is_space c then (if cur = [] then split_from [] cs else cur # split_from [] cs)
      else split_from (cur @ [c]) cs)"

definition split :: "string \<Rightarrow> string list" where
  "split s = split_from [] s"

definition is_digit :: "char \<Rightarrow> bool" where
  "is_digit c = ((48::nat) \<le> of_char c \<and> (of_char c :: nat) \<le> 57)"

definition digits_value :: "string \<Rightarrow> int" where
  "digits_value ds = foldl (\<lambda>a c. 10 * a + (of_char c - 48)) (0::int) ds"

definition all_digits :: "string \<Rightarrow> bool" where
  "all_digits ds = (ds \<noteq> [] \<and> list_all is_digit ds)"

text \<open>
  \<^verbatim>\<open>int(s)\<close> on a token without whitespace: an optional sign and at least one decimal
  digit; anything else raises \<^verbatim>\<open>ValueError\<close> (here \<open>None\<close>).
\<close>

fun py_int :: "string \<Rightarrow> int option" where
  "py_int [] = None"
| "py_int (c # cs) =
     (if c = CHR ''-'' then (if all_digits cs then Some (- digits_value cs) else None)
      else if c = CHR ''+'' then (if all_digits cs then Some (digits_value cs) else None)
      else if all_digits (c # cs) then Some (digits_value (c # cs)) else None)"

text \<open>\<^verbatim>\<open>sub in s\<close> on strings: \<open>sub\<close> occurs in \<open>s\<close> as a contiguous piece.\<close>

fun starts_with :: "string \<Rightarrow> string \<Rightarrow> bool" where
  "starts_with s [] = True"
| "starts_with [] (p # ps) = False"
| "starts_with (c # cs) (p # ps) = (c = p \<and> starts_with cs ps)"

fun str_contains :: "string \<Rightarrow> string \<Rightarrow> bool" where
  "str_contains [] sub = (sub = [])"
| "str_contains (c # cs) sub = (starts_with (c # cs) sub \<or> str_contains cs sub)"

text \<open>Python's truth value of an option that is \<^verbatim>\<open>None\<close>, a string or a list.\<close>

definition truthy :: "'a list option \<Rightarrow> bool" where
  "truthy x = (case x of None \<Rightarrow> False | Some xs \<Rightarrow> xs \<noteq> [])"

subsection \<open>\<^verbatim>\<open>trim_params_by_type\<close>\<close>

text \<open>\<^verbatim>\<open>[x for x in params if x.ptype in ptypes]\<close>, over references.\<close>

primrec trim_params_by_type :: "'v heap \<Rightarrow> ref list \<Rightarrow> string list \<Rightarrow> ref list" where
  "trim_params_by_type h [] ptypes = []"
| "trim_params_by_type h (x # params) ptypes =
     (if ptype (h x) \<in> set ptypes then x # trim_params_by_type h params ptypes
      else trim_params_by_type h params ptypes)"

subsection \<open>\<^verbatim>\<open>trim_params_by_file\<close>\<close>

text \<open>
  The loop \<^verbatim>\<open>for arg in cols[2:]: if 'neg' in arg: allow_negative = True\<close>, started
  with \<^verbatim>\<open>allow_negative = None\<close>.
\<close>

definition neg_flag :: "string list \<Rightarrow> bool option" where
  "neg_flag args = foldl (\<lambda>a arg. if str_contains arg ''neg'' then Some True else a) None args"

text \<open>
  The body of the loop over the lines. A line without tokens adds nothing (\<open>Inr None\<close>).
  In \<^verbatim>\<open>int(cols[0]), int(cols[1])\<close> the first conversion is evaluated first, then the
  index \<^verbatim>\<open>cols[1]\<close>, then the second conversion.
\<close>

definition parse_line :: "string \<Rightarrow> py_error + temp_param option" where
  "parse_line line =
     (case split (before_hash line) of
        [] \<Rightarrow> Inr None
      | c0 # rest \<Rightarrow>
          (case py_int c0 of
             None \<Rightarrow> Inl ValueError
           | Some row \<Rightarrow>
               (case rest of
                  [] \<Rightarrow> Inl IndexError
                | c1 # args \<Rightarrow>
                    (case py_int c1 of
                       None \<Rightarrow> Inl ValueError
                     | Some col \<Rightarrow> Inr (Some (row, col, neg_flag args))))))"

text \<open>The loop over the lines; the second argument is \<^verbatim>\<open>temp_params\<close> so far.\<close>

fun read_temp_params :: "string list \<Rightarrow> temp_param list \<Rightarrow> py_error + temp_param list" where
  "read_temp_params [] temp_params = Inr temp_params"
| "read_temp_params (line # ls) temp_params =
     (case parse_line line of
        Inl e \<Rightarrow> Inl e
      | Inr None \<Rightarrow> read_temp_params ls temp_params
      | Inr (Some t) \<Rightarrow> read_temp_params ls (temp_params @ [t]))"

definition matches :: "'v param \<Rightarrow> temp_param \<Rightarrow> bool" where
  "matches p t = (mm3_row p = fst t \<and> mm3_col p = fst (snd t))"

text \<open>
  The inner loop \<^verbatim>\<open>for temp_param in temp_params\<close> for one parameter: a match writes
  \<^verbatim>\<open>_allow_negative\<close> into the object and appends the reference to \<^verbatim>\<open>chosen_params\<close>.
\<close>

fun match_temp_params ::
  "ref \<Rightarrow> temp_param list \<Rightarrow> 'v heap \<times> ref list \<Rightarrow> 'v heap \<times> ref list" where
  "match_temp_params x [] (h, chosen_params) = (h, chosen_params)"
| "match_temp_params x (t # ts) (h, chosen_params) =
     (if matches (h x) t
      then match_temp_params x ts
             (h(x := (h x)\<lparr>allow_negative := snd (snd t)\<rparr>), chosen_params @ [x])
      else match_temp_params x ts (h, chosen_params))"

text \<open>The outer loop \<^verbatim>\<open>for param in params\<close>.\<close>

fun match_params ::
  "ref list \<Rightarrow> temp_param list \<Rightarrow> 'v heap \<times> ref list \<Rightarrow> 'v heap \<times> ref list" where
  "match_params [] ts st = st"
| "match_params (x # params) ts st = match_params params ts (match_temp_params x ts st)"

text \<open>
  \<^verbatim>\<open>trim_params_by_file(params, filename)\<close>. The file system maps a name to the
  content of the file, if it can be read. The result is the store after the call, and
  the exception or \<^verbatim>\<open>chosen_params\<close>.
\<close>

definition trim_params_by_file ::
  "(string \<Rightarrow> string option) \<Rightarrow> 'v heap \<Rightarrow> ref list \<Rightarrow> string
     \<Rightarrow> 'v heap \<times> (py_error + ref list)" where
  "trim_params_by_file fs h params filename =
     (case fs filename of
        None \<Rightarrow> (h, Inl IOError)
      | Some content \<Rightarrow>
          (case read_temp_params (readlines content) [] of
             Inl e \<Rightarrow> (h, Inl e)
           | Inr temp_params \<Rightarrow>
               (case match_params params temp_params (h, []) of
                  (h', chosen_params) \<Rightarrow> (h', Inr chosen_params))))"

subsection \<open>\<^verbatim>\<open>gather_values\<close>\<close>

text \<open>
  \<^verbatim>\<open>if row in dic: dic[row].append(value) else: dic[row] = [value]\<close>
\<close>

definition add_value :: "'v dic \<Rightarrow> 'v observation \<Rightarrow> 'v dic" where
  "add_value d b =
     (case d (ff_row b) of
        Some vs \<Rightarrow> d(ff_row b \<mapsto> vs @ [ovalue b])
      | None \<Rightarrow> d(ff_row b \<mapsto> [ovalue b]))"

definition gather_structure :: "'v dic \<times> 'v dic \<Rightarrow> 'v mm_structure \<Rightarrow> 'v dic \<times> 'v dic" where
  "gather_structure st s =
     (foldl add_value (fst st) (bonds s), foldl add_value (snd st) (angles s))"

definition gather_mmo :: "'v dic \<times> 'v dic \<Rightarrow> 'v macromodel \<Rightarrow> 'v dic \<times> 'v dic" where
  "gather_mmo st mmo = foldl gather_structure st (structures mmo)"

definition gather_values :: "'v macromodel list \<Rightarrow> 'v dic \<times> 'v dic" where
  "gather_values mmos = foldl gather_mmo (Map.empty, Map.empty) mmos"

subsection \<open>\<^verbatim>\<open>main\<close>\<close>

text \<open>The options that \<^verbatim>\<open>parse_args\<close> returns.\<close>

record opts =
  opt_all :: bool
  average :: "string option"
  check :: bool
  ffpath :: string
  mmo :: "string list option"
  printparams :: bool
  pfile :: "string option"
  ptypes :: "string list"

text \<open>
  The collaborators: \<^verbatim>\<open>datatypes.MM3(path).import_ff()\<close> gives the parameter objects
  and the list \<^verbatim>\<open>ff.params\<close>; \<^verbatim>\<open>open(path)\<close> gives the content of a file;
  \<^verbatim>\<open>filetypes.MacroModel(path)\<close> gives the structures of a file. \<open>None\<close> is a file that
  cannot be read. \<^verbatim>\<open>np.mean(values)\<close> gives the mean that numpy computes for a list of
  values.
\<close>

record 'v world =
  import_ff :: "string \<Rightarrow> ('v heap \<times> ref list) option"
  read_file :: "string \<Rightarrow> string option"
  read_mmo :: "string \<Rightarrow> 'v macromodel option"
  numpy_mean :: "'v list \<Rightarrow> 'v"

text \<open>What the program does to the outside, in order.\<close>

datatype 'v event =
    ImportFF string
  | OpenFile string
  | ReadMMO string
  | PrintNotInUse "'v param"
  | ExportFF string "'v param list"
  | PrintParam int int

text \<open>
  The usage check: \<^verbatim>\<open>all_rows = bond_dic.keys() + angle_dic.keys()\<close>, used for
  membership only, and one line printed for each selected parameter whose row is not
  in it.
\<close>

definition all_rows :: "'v dic \<Rightarrow> 'v dic \<Rightarrow> int set" where
  "all_rows bond_dic angle_dic = dom bond_dic \<union> dom angle_dic"

primrec check_params :: "'v heap \<Rightarrow> 'v dic \<Rightarrow> 'v dic \<Rightarrow> ref list \<Rightarrow> 'v event list" where
  "check_params h bond_dic angle_dic [] = []"
| "check_params h bond_dic angle_dic (x # params) =
     (if mm3_row (h x) \<notin> all_rows bond_dic angle_dic
      then PrintNotInUse (h x) # check_params h bond_dic angle_dic params
      else check_params h bond_dic angle_dic params)"

text \<open>
  The dictionary of the means, \<^verbatim>\<open>avg[ff_row] = np.mean(values)\<close> for every item of a
  dictionary. The first argument is \<^verbatim>\<open>np.mean\<close>.
\<close>

definition averages :: "('v list \<Rightarrow> 'v) \<Rightarrow> 'v dic \<Rightarrow> (int \<rightharpoonup> 'v)" where
  "averages np_mean d = (\<lambda>row. map_option np_mean (d row))"

text \<open>
  The two statements of the update loop:
  \<^verbatim>\<open>if param.ptype in ['be', 'ae'] and param.mm3_row in bond_avg: param.value = bond_avg[param.mm3_row]\<close>
  and the same with \<^verbatim>\<open>angle_avg\<close>.
\<close>

definition set_average :: "(int \<rightharpoonup> 'v) \<Rightarrow> 'v param \<Rightarrow> 'v param" where
  "set_average avg p =
     (if ptype p \<in> set [''be'', ''ae''] then
        (case avg (mm3_row p) of Some m \<Rightarrow> p\<lparr>pvalue := m\<rparr> | None \<Rightarrow> p)
      else p)"

definition update_param :: "(int \<rightharpoonup> 'v) \<Rightarrow> (int \<rightharpoonup> 'v) \<Rightarrow> 'v param \<Rightarrow> 'v param" where
  "update_param bond_avg angle_avg p = set_average angle_avg (set_average bond_avg p)"

text \<open>The loop \<^verbatim>\<open>for param in params\<close> of the averaging, on the store.\<close>

primrec update_params ::
  "(int \<rightharpoonup> 'v) \<Rightarrow> (int \<rightharpoonup> 'v) \<Rightarrow> ref list \<Rightarrow> 'v heap \<Rightarrow> 'v heap" where
  "update_params bond_avg angle_avg [] h = h"
| "update_params bond_avg angle_avg (x # params) h =
     update_params bond_avg angle_avg params (h(x := update_param bond_avg angle_avg (h x)))"

definition average_params ::
  "('v list \<Rightarrow> 'v) \<Rightarrow> 'v dic \<Rightarrow> 'v dic \<Rightarrow> ref list \<Rightarrow> 'v heap \<Rightarrow> 'v heap" where
  "average_params np_mean bond_dic angle_dic params h =
     update_params (averages np_mean bond_dic) (averages np_mean angle_dic) params h"

text \<open>
  The selection of \<^verbatim>\<open>main\<close>: \<^verbatim>\<open>params\<close> starts empty and is extended by the
  parameters chosen by type, if any type is selected, then by those chosen by file, if
  a file is named. The result is the events, the store and the exception or
  \<^verbatim>\<open>params\<close>.
\<close>

definition selected_ptypes :: "opts \<Rightarrow> string list" where
  "selected_ptypes opts = (if opt_all opts then ptypes opts @ ALL_PARM_TYPES else ptypes opts)"

definition select_params ::
  "'v world \<Rightarrow> opts \<Rightarrow> 'v heap \<Rightarrow> ref list
     \<Rightarrow> 'v event list \<times> 'v heap \<times> (py_error + ref list)" where
  "select_params w opts h ff_params =
     (let by_type = (if selected_ptypes opts \<noteq> []
                     then trim_params_by_type h ff_params (selected_ptypes opts) else [])
      in case pfile opts of
           None \<Rightarrow> ([], h, Inr by_type)
         | Some filename \<Rightarrow>
             if filename = [] then ([], h, Inr by_type)
             else (case trim_params_by_file (read_file w) h ff_params filename of
                     (h', Inl e) \<Rightarrow> ([OpenFile filename], h', Inl e)
                   | (h', Inr by_file) \<Rightarrow> ([OpenFile filename], h', Inr (by_type @ by_file))))"

text \<open>\<^verbatim>\<open>for filename in opts.mmo: mmos.append(filetypes.MacroModel(filename))\<close>\<close>

fun load_mmos ::
  "'v world \<Rightarrow> string list \<Rightarrow> 'v event list \<times> (py_error + 'v macromodel list)" where
  "load_mmos w [] = ([], Inr [])"
| "load_mmos w (filename # fs) =
     (case read_mmo w filename of
        None \<Rightarrow> ([ReadMMO filename], Inl IOError)
      | Some m \<Rightarrow>
          (case load_mmos w fs of
             (ev, Inl e) \<Rightarrow> (ReadMMO filename # ev, Inl e)
           | (ev, Inr ms) \<Rightarrow> (ReadMMO filename # ev, Inr (m # ms))))"

text \<open>
  The part of \<^verbatim>\<open>main\<close> under \<^verbatim>\<open>if opts.mmo or opts.average or opts.check\<close>. Iterating
  over \<^verbatim>\<open>opts.mmo\<close> when it is \<^verbatim>\<open>None\<close> raises \<^verbatim>\<open>TypeError\<close>.
\<close>

definition use_mmos ::
  "'v world \<Rightarrow> opts \<Rightarrow> 'v heap \<Rightarrow> ref list \<Rightarrow> 'v event list \<times> (py_error + 'v heap)" where
  "use_mmos w opts h params =
     (if truthy (mmo opts) \<or> truthy (average opts) \<or> check opts then
        (case mmo opts of
           None \<Rightarrow> ([], Inl TypeError)
         | Some filenames \<Rightarrow>
             (case load_mmos w filenames of
                (ev, Inl e) \<Rightarrow> (ev, Inl e)
              | (ev, Inr mmos) \<Rightarrow>
                  (case gather_values mmos of
                     (bond_dic, angle_dic) \<Rightarrow>
                       (let ev_check = (if check opts
                                        then check_params h bond_dic angle_dic params else [])
                        in case average opts of
                             None \<Rightarrow> (ev @ ev_check, Inr h)
                           | Some path \<Rightarrow>
                               if path = [] then (ev @ ev_check, Inr h)
                               else (let h' = average_params (numpy_mean w)
                                                 bond_dic angle_dic params h
                                     in (ev @ ev_check @ [ExportFF path (map h' params)],
                                         Inr h'))))))
      else ([], Inr h))"

text \<open>
  \<^verbatim>\<open>main\<close>, after \<^verbatim>\<open>parse_args\<close>. The result is the events and the exception, or the
  store and \<^verbatim>\<open>ff.params\<close> of the force field returned.
\<close>

definition main ::
  "'v world \<Rightarrow> opts \<Rightarrow> 'v event list \<times> (py_error + 'v heap \<times> ref list)" where
  "main w opts =
     (if (truthy (average opts) \<or> check opts) \<and> \<not> truthy (mmo opts)
      then ([], Inl AssertionError)
      else
        (case import_ff w (ffpath opts) of
           None \<Rightarrow> ([ImportFF (ffpath opts)], Inl IOError)
         | Some (h, ff_params) \<Rightarrow>
             (case select_params w opts h ff_params of
                (ev1, h1, Inl e) \<Rightarrow> (ImportFF (ffpath opts) # ev1, Inl e)
              | (ev1, h1, Inr params) \<Rightarrow>
                  (case use_mmos w opts h1 params of
                     (ev2, Inl e) \<Rightarrow> (ImportFF (ffpath opts) # ev1 @ ev2, Inl e)
                   | (ev2, Inr h2) \<Rightarrow>
                       (ImportFF (ffpath opts) # ev1 @ ev2 @
                          (if printparams opts
                           then map (\<lambda>x. PrintParam (mm3_row (h2 x)) (mm3_col (h2 x))) params
                           else []),
                        Inr (h2, params))))))"

subsection \<open>IEEE doubles and the mean of numpy\<close>

text \<open>
  The values of the program are IEEE 754 binary64 numbers. \<open>Finite m e\<close> is the number
  \<open>m * 2 ^ e\<close>. The results of the operations below are normalised, so that equal numbers
  are equal terms: either \<open>2 ^ 52 \<le> \<bar>m\<bar> < 2 ^ 53\<close> and \<open>- 1074 \<le> e \<le> 971\<close>, or
  \<open>\<bar>m\<bar> < 2 ^ 52\<close> and \<open>e = - 1074\<close> (a subnormal number or zero). The sign of zero is not
  represented.
\<close>

datatype double = Finite int int | PosInf | NegInf | NaN

function pow2 :: "int \<Rightarrow> int" where
  "pow2 k = (if k \<le> 0 then 1 else 2 * pow2 (k - 1))"
  by pat_completeness auto
termination
  by (relation "measure nat") auto

text \<open>The number of binary digits of a positive integer.\<close>

function bit_length :: "int \<Rightarrow> int" where
  "bit_length n = (if n \<le> 0 then 0 else 1 + bit_length (n div 2))"
  by pat_completeness auto
termination
  by (relation "measure nat") auto

text \<open>The integer nearest to \<open>n / d\<close>, a tie going to the even one (\<open>0 \<le> n\<close>, \<open>0 < d\<close>).\<close>

definition round_half_even_div :: "int \<Rightarrow> int \<Rightarrow> int" where
  "round_half_even_div n d =
     (let q = n div d; r = n mod d
      in if 2 * r < d then q else if d < 2 * r then q + 1 else if even q then q else q + 1)"

text \<open>The largest \<open>k\<close> with \<open>2 ^ k \<le> p / d\<close>, for positive \<open>p\<close> and \<open>d\<close>.\<close>

definition floor_log2 :: "int \<Rightarrow> int \<Rightarrow> int" where
  "floor_log2 p d =
     (let k = bit_length p - bit_length d
      in if (if 0 \<le> k then d * pow2 k \<le> p else d \<le> p * pow2 (- k)) then k else k - 1)"

text \<open>
  The double nearest to \<open>p / d\<close> for positive \<open>p\<close> and \<open>d\<close>: the mantissa has 53 bits, or
  fewer below \<open>2 ^ - 1022\<close>; a result of \<open>2 ^ 1024\<close> or more is infinity.
\<close>

definition round_positive :: "int \<Rightarrow> int \<Rightarrow> double" where
  "round_positive p d =
     (let e = max (floor_log2 p d) (- 1022) - 52;
          m = (if 0 \<le> e then round_half_even_div p (d * pow2 e)
               else round_half_even_div (p * pow2 (- e)) d)
      in if 971 < e then PosInf
         else if m = pow2 53 then (if e = 971 then PosInf else Finite (pow2 52) (e + 1))
         else Finite m e)"

fun negate :: "double \<Rightarrow> double" where
  "negate (Finite m e) = Finite (- m) e"
| "negate PosInf = NegInf"
| "negate NegInf = PosInf"
| "negate NaN = NaN"

text \<open>
  The double nearest to the fraction \<open>p / d\<close> with \<open>0 < d\<close>, as Python reads a decimal
  literal: \<^verbatim>\<open>1.360\<close> is \<open>to_double 1360 1000\<close>.
\<close>

definition to_double :: "int \<Rightarrow> int \<Rightarrow> double" where
  "to_double p d =
     (if p = 0 then Finite 0 (- 1074)
      else if 0 < p then round_positive p d
      else negate (round_positive (- p) d))"

text \<open>The double nearest to \<open>m * 2 ^ e / d\<close>.\<close>

definition scaled :: "int \<Rightarrow> int \<Rightarrow> int \<Rightarrow> double" where
  "scaled m e d = (if 0 \<le> e then to_double (m * pow2 e) d else to_double m (pow2 (- e) * d))"

text \<open>Addition: the exact sum, rounded; the rules of infinity and nan.\<close>

fun double_add :: "double \<Rightarrow> double \<Rightarrow> double" where
  "double_add NaN y = NaN"
| "double_add x NaN = NaN"
| "double_add PosInf NegInf = NaN"
| "double_add NegInf PosInf = NaN"
| "double_add PosInf y = PosInf"
| "double_add x PosInf = PosInf"
| "double_add NegInf y = NegInf"
| "double_add x NegInf = NegInf"
| "double_add (Finite m1 e1) (Finite m2 e2) =
     (let e = min e1 e2 in scaled (m1 * pow2 (e1 - e) + m2 * pow2 (e2 - e)) e 1)"

text \<open>Division of a sum by the number of values; \<^verbatim>\<open>0.0 / 0\<close> is nan.\<close>

fun double_div_count :: "double \<Rightarrow> nat \<Rightarrow> double" where
  "double_div_count (Finite m e) n =
     (if n = 0 then (if m = 0 then NaN else if 0 < m then PosInf else NegInf)
      else scaled m e (int n))"
| "double_div_count x n = x"

text \<open>
  \<^verbatim>\<open>np.mean\<close> on a list of doubles: the values are added from left to right, every sum
  rounded, and the sum is divided by the count. numpy adds in this order when the list
  has fewer than eight values; for longer lists the order of the additions depends on
  the version of numpy, which is why the averaging takes the mean as an argument. The
  mean of the empty list is nan.
\<close>

definition np_mean_double :: "double list \<Rightarrow> double" where
  "np_mean_double values =
     double_div_count (foldl double_add (Finite 0 (- 1074)) values) (length values)"


subsection \<open>Notions used to state the properties\<close>

text \<open>The values observed for a row in a sequence of bonds or angles, in order.\<close>

definition row_values :: "int \<Rightarrow> 'v observation list \<Rightarrow> 'v list" where
  "row_values row obs = map ovalue (filter (\<lambda>b. ff_row b = row) obs)"

text \<open>A dictionary after the values of a sequence of observations have been appended.\<close>

definition appended :: "'v dic \<Rightarrow> 'v observation list \<Rightarrow> 'v dic" where
  "appended d obs =
     (\<lambda>row. case d row of
              None \<Rightarrow> (if row_values row obs = [] then None else Some (row_values row obs))
            | Some vs \<Rightarrow> Some (vs @ row_values row obs))"

text \<open>
  All bonds, and all angles, of a list of MacroModel files in the order of traversal:
  file by file, structure by structure.
\<close>

definition all_bonds :: "'v macromodel list \<Rightarrow> 'v observation list" where
  "all_bonds mmos = concat (map bonds (concat (map structures mmos)))"

definition all_angles :: "'v macromodel list \<Rightarrow> 'v observation list" where
  "all_angles mmos = concat (map angles (concat (map structures mmos)))"

text \<open>A parameter as the force-field reader creates it, \<^verbatim>\<open>_allow_negative\<close> unset.\<close>

definition mk_param :: "string \<Rightarrow> int \<Rightarrow> int \<Rightarrow> 'v \<Rightarrow> 'v param" where
  "mk_param t row col v =
     \<lparr>ptype = t, mm3_row = row, mm3_col = col, pvalue = v, allow_negative = None\<rparr>"

text \<open>
  The store of the selection scenario: the parameters \<open>(100, 1, be)\<close>, \<open>(100, 2, bf)\<close>,
  \<open>(200, 1, ae)\<close> and \<open>(300, 1, ae)\<close> at the references 0 to 3.
\<close>

definition scenario_heap :: "double heap" where
  "scenario_heap =
     (\<lambda>_. mk_param ''ae'' 300 1 (to_double 0 1))
       (0 := mk_param ''be'' 100 1 (to_double 0 1),
        1 := mk_param ''bf'' 100 2 (to_double 0 1),
        2 := mk_param ''ae'' 200 1 (to_double 0 1))"




text \<open>
  The selection file of the scenario, a file in which two lines name the same
  parameter, and a file whose second line has no integer in its second position.
\<close>

definition scenario_file :: string where
  "scenario_file = ''100 1'' @ [CHR 0x0A] @ ''100 2 neg'' @ [CHR 0x0A] @ ''200 1 # comment''"

definition repeated_file :: string where
  "repeated_file = ''100 1 neg'' @ [CHR 0x0A] @ ''100 1'' @ [CHR 0x0A]"

definition broken_file :: string where
  "broken_file = ''100 1 neg'' @ [CHR 0x0A] @ ''200 x'' @ [CHR 0x0A]"

text \<open>
  A line that is not blank and not only a comment, and does not give two integer tokens
  in its first two positions.
\<close>

definition malformed_line :: "string \<Rightarrow> bool" where
  "malformed_line line =
     (let cols = split (before_hash line)
      in cols \<noteq> [] \<and>
         \<not> (2 \<le> length cols \<and> py_int (cols ! 0) \<noteq> None \<and> py_int (cols ! 1) \<noteq> None))"

text \<open>The directives of the lines of a well-formed file, in the order of the file.\<close>

definition directives :: "string list \<Rightarrow> temp_param list" where
  "directives ls =
     concat (map (\<lambda>line. case parse_line line of Inr (Some t) \<Rightarrow> [t] | _ \<Rightarrow> []) ls)"

text \<open>
  A parameter with the flag of the last directive that matches it, if one matches.
\<close>

definition apply_last :: "temp_param list \<Rightarrow> 'v param \<Rightarrow> 'v param" where
  "apply_last ts p =
     (case filter (matches p) ts of
        [] \<Rightarrow> p
      | t # ms \<Rightarrow> p\<lparr>allow_negative := snd (snd (last (t # ms)))\<rparr>)"

text \<open>The options and the collaborators of the examples.\<close>

definition no_opts :: opts where
  "no_opts = \<lparr>opt_all = False, average = None, check = False, ffpath = ''mm3.fld'',
              mmo = None, printparams = False, pfile = None, ptypes = []\<rparr>"

definition scenario_world :: "double world" where
  "scenario_world =
     \<lparr>import_ff = (\<lambda>_. Some (scenario_heap, [0, 1, 2, 3])),
      read_file = (\<lambda>_. Some scenario_file),
      read_mmo = (\<lambda>_. None),
      numpy_mean = np_mean_double\<rparr>"

section \<open>Properties\<close>

subsection \<open>Selection by type\<close>

lemma trim_params_by_type_filter:
  "trim_params_by_type h params wanted = filter (\<lambda>x. ptype (h x) \<in> set wanted) params"
  by (induction params) simp_all

text \<open>
  C4. Selection by type returns exactly the parameters whose \<open>ptype\<close> is among the
  requested ones, in their original order, so as a subsequence of the input. With no
  requested type the result is empty, and requested strings that are the type of no
  parameter change nothing. The function is total: it returns a list in every case.
\<close>

theorem trim_params_by_type_sublist:
  "trim_params_by_type h params wanted = filter (\<lambda>x. ptype (h x) \<in> set wanted) params
   \<and> subseq (trim_params_by_type h params wanted) params
   \<and> trim_params_by_type h params [] = []
   \<and> ((\<forall>x \<in> set params. ptype (h x) \<notin> set unknown) \<longrightarrow>
        trim_params_by_type h params (wanted @ unknown) = trim_params_by_type h params wanted
        \<and> trim_params_by_type h params unknown = [])"
proof -
  have eq: "\<And>ps. trim_params_by_type h params ps = filter (\<lambda>x. ptype (h x) \<in> set ps) params"
    by (rule trim_params_by_type_filter)
  have sub: "subseq (trim_params_by_type h params wanted) params"
    unfolding eq by simp
  have emp: "trim_params_by_type h params [] = []"
    unfolding eq by simp
  have unk: "(\<forall>x \<in> set params. ptype (h x) \<notin> set unknown) \<longrightarrow>
        trim_params_by_type h params (wanted @ unknown) = trim_params_by_type h params wanted
        \<and> trim_params_by_type h params unknown = []"
    unfolding eq by (auto intro: filter_cong)
  from eq sub emp unk show ?thesis by blast
qed

theorem trim_params_by_type_sublist_witness:
  "trim_params_by_type scenario_heap [0, 1, 2, 3] [''ae'', ''zz''] = [2, 3]
   \<and> trim_params_by_type scenario_heap [0, 1, 2, 3] [''zz''] = []
   \<and> subseq (trim_params_by_type scenario_heap [0, 1, 2, 3] [''ae'']) [0, 1, 2, 3]"
proof -
  have known: "\<forall>x \<in> set [0, 1, 2, 3]. ptype (scenario_heap x) \<notin> set [''zz'']"
    by (simp add: scenario_heap_def mk_param_def)
  have ae: "trim_params_by_type scenario_heap [0, 1, 2, 3] [''ae''] = [2, 3]"
    by (simp add: scenario_heap_def mk_param_def)
  from trim_params_by_type_sublist [of scenario_heap "[0, 1, 2, 3]" "[''ae'']" "[''zz'']"] known ae
  show ?thesis by simp
qed

subsection \<open>Gathering the values\<close>

lemma appended_Nil: "appended d [] = d"
  by (rule ext) (simp add: appended_def row_values_def split: option.splits)

lemma appended_add_value: "appended (add_value d b) obs = appended d (b # obs)"
  by (rule ext) (simp add: appended_def add_value_def row_values_def split: option.splits)

lemma foldl_add_value: "foldl add_value d obs = appended d obs"
  by (induction obs arbitrary: d) (simp_all add: appended_Nil appended_add_value)

lemma appended_append: "appended (appended d xs) ys = appended d (xs @ ys)"
  by (rule ext) (simp add: appended_def row_values_def split: option.splits)

lemma gather_structure_appended:
  "gather_structure (bd, ad) s = (appended bd (bonds s), appended ad (angles s))"
  by (simp add: gather_structure_def foldl_add_value)

lemma foldl_gather_structure:
  "foldl gather_structure (bd, ad) ss =
     (appended bd (concat (map bonds ss)), appended ad (concat (map angles ss)))"
  by (induction ss arbitrary: bd ad)
     (simp_all add: appended_Nil gather_structure_appended appended_append)

lemma foldl_gather_mmo:
  "foldl gather_mmo (bd, ad) mmos = (appended bd (all_bonds mmos), appended ad (all_angles mmos))"
  by (induction mmos arbitrary: bd ad)
     (simp_all add: all_bonds_def all_angles_def appended_Nil gather_mmo_def
        foldl_gather_structure appended_append)

lemma gather_values_appended:
  "gather_values mmos = (appended Map.empty (all_bonds mmos), appended Map.empty (all_angles mmos))"
  by (simp add: gather_values_def foldl_gather_mmo)

lemma gather_values_dom:
  "dom (fst (gather_values mmos)) = ff_row ` set (all_bonds mmos)"
  "dom (snd (gather_values mmos)) = ff_row ` set (all_angles mmos)"
  by (auto simp add: gather_values_appended appended_def row_values_def dom_def filter_empty_conv
      split: if_splits)

text \<open>
  C9. \<open>gather_values\<close> returns two dictionaries, the first for the bonds and the second
  for the angles. A row is a key of a dictionary exactly when some observation of that
  kind has the row, and its entry is then the list of the values of the row's
  observations in the order of traversal, every occurrence kept and no value changed.
\<close>

theorem gather_values_rows:
  "fst (gather_values mmos) row =
      (if row_values row (all_bonds mmos) = [] then None
       else Some (row_values row (all_bonds mmos)))
   \<and> snd (gather_values mmos) row =
      (if row_values row (all_angles mmos) = [] then None
       else Some (row_values row (all_angles mmos)))"
  by (simp add: gather_values_appended appended_def)

theorem gather_values_rows_witness:
  "fst (gather_values
      [\<lparr>structures =
          [\<lparr>bonds = [\<lparr>ff_row = 1857, ovalue = to_double 2 1\<rparr>,
                     \<lparr>ff_row = 1858, ovalue = to_double 1 1\<rparr>],
            angles = [\<lparr>ff_row = 1872, ovalue = to_double 109 1\<rparr>]\<rparr>]\<rparr>,
       \<lparr>structures =
          [\<lparr>bonds = [\<lparr>ff_row = 1857, ovalue = to_double 3 1\<rparr>,
                     \<lparr>ff_row = 1857, ovalue = to_double 2 1\<rparr>],
            angles = []\<rparr>]\<rparr>]) 1857
     = Some [to_double 2 1, to_double 3 1, to_double 2 1]
   \<and> snd (gather_values
      [\<lparr>structures =
          [\<lparr>bonds = [\<lparr>ff_row = 1857, ovalue = to_double 2 1\<rparr>,
                     \<lparr>ff_row = 1858, ovalue = to_double 1 1\<rparr>],
            angles = [\<lparr>ff_row = 1872, ovalue = to_double 109 1\<rparr>]\<rparr>]\<rparr>,
       \<lparr>structures =
          [\<lparr>bonds = [\<lparr>ff_row = 1857, ovalue = to_double 3 1\<rparr>,
                     \<lparr>ff_row = 1857, ovalue = to_double 2 1\<rparr>],
            angles = []\<rparr>]\<rparr>]) 1857
     = None"
  using gather_values_rows [of
      "[\<lparr>structures =
          [\<lparr>bonds = [\<lparr>ff_row = 1857, ovalue = to_double 2 1\<rparr>,
                     \<lparr>ff_row = 1858, ovalue = to_double 1 1\<rparr>],
            angles = [\<lparr>ff_row = 1872, ovalue = to_double 109 1\<rparr>]\<rparr>]\<rparr>,
       \<lparr>structures =
          [\<lparr>bonds = [\<lparr>ff_row = 1857, ovalue = to_double 3 1\<rparr>,
                     \<lparr>ff_row = 1857, ovalue = to_double 2 1\<rparr>],
            angles = []\<rparr>]\<rparr>]" 1857]
  by (simp add: all_bonds_def all_angles_def row_values_def)

subsection \<open>Averaging\<close>

lemma set_average_fixed [simp]:
  "ptype (set_average avg p) = ptype p"
  "mm3_row (set_average avg p) = mm3_row p"
  "mm3_col (set_average avg p) = mm3_col p"
  "allow_negative (set_average avg p) = allow_negative p"
  by (simp_all add: set_average_def split: option.splits)

lemma set_average_eligible:
  "ptype p \<in> {''be'', ''ae''} \<Longrightarrow> d (mm3_row p) = Some vs \<Longrightarrow>
   set_average (averages np_mean d) p = p\<lparr>pvalue := np_mean vs\<rparr>"
  by (auto simp add: set_average_def averages_def)

lemma set_average_absent:
  "d (mm3_row p) = None \<Longrightarrow> set_average (averages np_mean d) p = p"
  by (simp add: set_average_def averages_def)

lemma set_average_other:
  "ptype p \<notin> {''be'', ''ae''} \<Longrightarrow> set_average avg p = p"
  by (simp add: set_average_def)

lemma update_param_idem:
  "update_param b a (update_param b a p) = update_param b a p"
  by (simp add: update_param_def set_average_def split: option.splits)

lemma update_params_at:
  "update_params b a params h x = (if x \<in> set params then update_param b a (h x) else h x)"
  by (induction params arbitrary: h) (simp_all add: update_param_idem)

lemma average_params_at:
  "average_params np_mean bd ad params h x =
     (if x \<in> set params
      then update_param (averages np_mean bd) (averages np_mean ad) (h x) else h x)"
  by (simp add: average_params_def update_params_at)



lemma small_means:
  "np_mean_double [to_double 1 1, to_double 2 1] = to_double 3 2"
  "np_mean_double [to_double 100 1, to_double 110 1, to_double 120 1] = to_double 110 1"
  by code_simp+




text \<open>
  C3. When the row of a selected parameter of type \<open>be\<close> or \<open>ae\<close> is a key of both
  dictionaries, the first statement gives it the bond mean, the second statement
  overwrites that with the angle mean, and the angle mean is its value after averaging.
\<close>

theorem angle_mean_wins:
  assumes "x \<in> set params" "ptype (h x) \<in> {''be'', ''ae''}"
    "bond_dic (mm3_row (h x)) = Some bs" "angle_dic (mm3_row (h x)) = Some as"
  shows "pvalue (set_average (averages np_mean bond_dic) (h x)) = np_mean bs
     \<and> average_params np_mean bond_dic angle_dic params h x
         = (set_average (averages np_mean bond_dic) (h x))\<lparr>pvalue := np_mean as\<rparr>
     \<and> pvalue (average_params np_mean bond_dic angle_dic params h x) = np_mean as"
proof -
  let ?p = "set_average (averages np_mean bond_dic) (h x)"
  have at: "average_params np_mean bond_dic angle_dic params h x
              = set_average (averages np_mean angle_dic) ?p"
    using assms(1) by (simp add: average_params_at update_param_def)
  have first: "?p = (h x)\<lparr>pvalue := np_mean bs\<rparr>"
    using assms(2,3) by (rule set_average_eligible)
  have "ptype ?p \<in> {''be'', ''ae''}" and "angle_dic (mm3_row ?p) = Some as"
    using assms(2,4) by simp_all
  then have second: "set_average (averages np_mean angle_dic) ?p = ?p\<lparr>pvalue := np_mean as\<rparr>"
    by (rule set_average_eligible)
  show ?thesis
    using first second by (simp add: at)
qed

theorem angle_mean_wins_witness:
  "pvalue (set_average (averages np_mean_double [500 \<mapsto> [to_double 1 1, to_double 2 1]])
             (mk_param ''be'' 500 1 (to_double 0 1))) = to_double 3 2
   \<and> pvalue (average_params np_mean_double
               [500 \<mapsto> [to_double 1 1, to_double 2 1]]
               [500 \<mapsto> [to_double 100 1, to_double 110 1, to_double 120 1]] [0]
               (\<lambda>_. mk_param ''be'' 500 1 (to_double 0 1)) 0) = to_double 110 1"
  using angle_mean_wins [of 0 "[0]" "\<lambda>_. mk_param ''be'' 500 1 (to_double 0 1)"
      "[500 \<mapsto> [to_double 1 1, to_double 2 1]]" "[to_double 1 1, to_double 2 1]"
      "[500 \<mapsto> [to_double 100 1, to_double 110 1, to_double 120 1]]"
      "[to_double 100 1, to_double 110 1, to_double 120 1]" np_mean_double]
  by (simp add: mk_param_def small_means)

text \<open>
  C8. A parameter whose type is neither \<open>be\<close> nor \<open>ae\<close>, and a parameter whose row is a
  key of neither dictionary, is the same object after averaging as before, whatever the
  dictionaries hold; in particular its value is unchanged.
\<close>

theorem average_params_frame:
  assumes "ptype (h x) \<notin> {''be'', ''ae''}
           \<or> (bond_dic (mm3_row (h x)) = None \<and> angle_dic (mm3_row (h x)) = None)"
  shows "average_params np_mean bond_dic angle_dic params h x = h x
         \<and> pvalue (average_params np_mean bond_dic angle_dic params h x) = pvalue (h x)"
  using assms
  by (auto simp add: average_params_at update_param_def set_average_other set_average_absent)

theorem average_params_frame_witness:
  "pvalue (average_params np_mean_double [100 \<mapsto> [to_double 1 1, to_double 2 1]]
             [100 \<mapsto> [to_double 3 1]] [0, 1, 2, 3] scenario_heap 1) = to_double 0 1
   \<and> pvalue (average_params np_mean_double [100 \<mapsto> [to_double 1 1, to_double 2 1]]
             [100 \<mapsto> [to_double 3 1]] [0, 1, 2, 3] scenario_heap 2) = to_double 0 1"
  using average_params_frame [of scenario_heap 1 "[100 \<mapsto> [to_double 1 1, to_double 2 1]]"
      "[100 \<mapsto> [to_double 3 1]]" np_mean_double "[0, 1, 2, 3]"]
    average_params_frame [of scenario_heap 2 "[100 \<mapsto> [to_double 1 1, to_double 2 1]]"
      "[100 \<mapsto> [to_double 3 1]]" np_mean_double "[0, 1, 2, 3]"]
  by (simp add: scenario_heap_def mk_param_def)

subsection \<open>Selection by file: parsing\<close>

lemma neg_flag_foldl:
  "foldl (\<lambda>a arg. if str_contains arg ''neg'' then Some True else a) acc args =
     (if \<exists>arg \<in> set args. str_contains arg ''neg'' then Some True else acc)"
  by (induction args arbitrary: acc) auto

lemma neg_flag_eq:
  "neg_flag args = (if \<exists>arg \<in> set args. str_contains arg ''neg'' then Some True else None)"
  by (simp add: neg_flag_def neg_flag_foldl)

lemma parse_line_fail: "(\<exists>e. parse_line line = Inl e) \<longleftrightarrow> malformed_line line"
  by (cases "split (before_hash line)")
     (auto simp add: parse_line_def malformed_line_def Let_def split: option.splits list.splits)

lemma parse_line_error: "parse_line line = Inl e \<Longrightarrow> e = ValueError \<or> e = IndexError"
  by (auto simp add: parse_line_def split: option.splits list.splits)

lemma parse_line_flag:
  "parse_line line = Inr (Some t) \<Longrightarrow>
   snd (snd t) = (if \<exists>arg \<in> set (drop 2 (split (before_hash line))). str_contains arg ''neg''
                  then Some True else None)"
  by (auto simp add: parse_line_def neg_flag_eq split: option.splits list.splits)

lemma read_temp_params_eq:
  "read_temp_params ls acc =
     (if \<exists>l \<in> set ls. malformed_line l
      then Inl (case parse_line (hd (filter malformed_line ls)) of
                  Inl e \<Rightarrow> e | Inr _ \<Rightarrow> ValueError)
      else Inr (acc @ directives ls))"
proof (induction ls arbitrary: acc)
  case Nil
  show ?case by (simp add: directives_def)
next
  case (Cons l ls)
  show ?case
  proof (cases "parse_line l")
    case (Inl e)
    then have "malformed_line l" using parse_line_fail by blast
    with Inl show ?thesis by simp
  next
    case (Inr r)
    then have "\<not> malformed_line l" using parse_line_fail [of l] by auto
    with Inr show ?thesis
      by (cases r) (simp_all add: Cons.IH directives_def)
  qed
qed

lemma read_temp_params_error:
  assumes "read_temp_params ls acc = Inl e"
  shows "e = ValueError \<or> e = IndexError"
proof -
  from assms have e: "e = (case parse_line (hd (filter malformed_line ls)) of
                             Inl e \<Rightarrow> e | Inr _ \<Rightarrow> ValueError)"
    by (simp add: read_temp_params_eq split: if_splits)
  show ?thesis
  proof (cases "parse_line (hd (filter malformed_line ls))")
    case (Inl e')
    with e parse_line_error [OF Inl] show ?thesis by simp
  next
    case (Inr r)
    with e show ?thesis by simp
  qed
qed

subsection \<open>Selection by file: matching\<close>

lemma matches_allow_negative [simp]: "matches (p\<lparr>allow_negative := a\<rparr>) = matches p"
  by (rule ext) (simp add: matches_def)

lemma matches_apply_last [simp]: "matches (apply_last ts p) = matches p"
  by (rule ext) (simp add: apply_last_def split: list.splits)

lemma apply_last_idem [simp]: "apply_last ts (apply_last ts p) = apply_last ts p"
  by (simp add: apply_last_def split: list.splits)

lemma apply_last_Cons:
  "apply_last (t # ts) p =
     (if matches p t then apply_last ts (p\<lparr>allow_negative := snd (snd t)\<rparr>) else apply_last ts p)"
  by (simp add: apply_last_def split: list.splits)

lemma match_temp_params_eq:
  "match_temp_params x ts (h, ch) =
     (h(x := apply_last ts (h x)), ch @ replicate (length (filter (matches (h x)) ts)) x)"
proof (induction ts arbitrary: h ch)
  case Nil
  show ?case by (simp add: apply_last_def)
next
  case (Cons t ts)
  show ?case
    by (simp add: Cons.IH apply_last_Cons replicate_app_Cons_same fun_eq_iff)
qed

lemma matches_heap_upd [simp]:
  "matches ((h(x := apply_last ts (h x))) y) = matches (h y)"
  by (cases "y = x") simp_all

lemma match_params_eq:
  "match_params params ts (h, ch) =
     ((\<lambda>y. if y \<in> set params then apply_last ts (h y) else h y),
      ch @ concat (map (\<lambda>x. replicate (length (filter (matches (h x)) ts)) x) params))"
proof (induction params arbitrary: h ch)
  case Nil
  show ?case by simp
next
  case (Cons x params)
  have "(\<lambda>y. if y \<in> set params then apply_last ts ((h(x := apply_last ts (h x))) y)
             else (h(x := apply_last ts (h x))) y)
      = (\<lambda>y. if y \<in> set (x # params) then apply_last ts (h y) else h y)"
    by (rule ext) simp
  then show ?case
    by (simp add: match_temp_params_eq Cons.IH del: fun_upd_apply)
qed

lemma filter_eq_concat_replicate:
  "filter (\<lambda>y. y = x) (concat (map (\<lambda>z. replicate (n z) z) params)) =
     replicate (count_list params x * n x) x"
  by (induction params) (simp_all add: replicate_add)

lemma trim_params_by_file_ok:
  assumes "fs filename = Some content"
    and "\<forall>line \<in> set (readlines content). \<not> malformed_line line"
  shows "trim_params_by_file fs h params filename =
     ((\<lambda>y. if y \<in> set params then apply_last (directives (readlines content)) (h y) else h y),
      Inr (concat (map (\<lambda>x. replicate
              (length (filter (matches (h x)) (directives (readlines content)))) x) params)))"
  using assms
  by (simp add: trim_params_by_file_def read_temp_params_eq match_params_eq)

lemma trim_params_by_file_malformed:
  assumes "fs filename = Some content"
    and "\<exists>line \<in> set (readlines content). malformed_line line"
  shows "\<exists>e. trim_params_by_file fs h params filename = (h, Inl e)
             \<and> (e = ValueError \<or> e = IndexError)"
proof -
  from assms(2) obtain e where e: "read_temp_params (readlines content) [] = Inl e"
    by (simp add: read_temp_params_eq)
  from read_temp_params_error [OF e] e assms(1) show ?thesis
    by (simp add: trim_params_by_file_def)
qed

lemma trim_params_by_file_unreadable:
  "fs filename = None \<Longrightarrow> trim_params_by_file fs h params filename = (h, Inl IOError)"
  by (simp add: trim_params_by_file_def)

lemma scenario_file_directives:
  "directives (readlines scenario_file) = [(100, 1, None), (100, 2, Some True), (200, 1, None)]"
  by code_simp

lemma scenario_file_wellformed:
  "\<forall>line \<in> set (readlines scenario_file). \<not> malformed_line line"
  by code_simp

lemma repeated_file_directives:
  "directives (readlines repeated_file) = [(100, 1, Some True), (100, 1, None)]"
  by code_simp

lemma repeated_file_wellformed:
  "\<forall>line \<in> set (readlines repeated_file). \<not> malformed_line line"
  by code_simp

lemma broken_file_malformed:
  "\<exists>line \<in> set (readlines broken_file). malformed_line line"
  by code_simp

text \<open>
  C5. Selection by file raises \<^verbatim>\<open>ValueError\<close> or \<^verbatim>\<open>IndexError\<close>, the two forms of a
  malformed line, exactly when the file can be read and one of its lines, after the
  comment is removed, has a token but not two integer tokens in its first two positions.
  Whenever the selection raises, the store is the one before the call, so no
  \<open>allow_negative\<close> is written, and no list of parameters is returned.
\<close>

theorem malformed_selection_line:
  "(snd (trim_params_by_file fs h params filename) \<in> {Inl ValueError, Inl IndexError}
      \<longleftrightarrow> (\<exists>content. fs filename = Some content
             \<and> (\<exists>line \<in> set (readlines content). malformed_line line)))
   \<and> ((\<exists>e. snd (trim_params_by_file fs h params filename) = Inl e)
        \<longrightarrow> fst (trim_params_by_file fs h params filename) = h)"
proof (cases "fs filename")
  case None
  then show ?thesis by (simp add: trim_params_by_file_unreadable)
next
  case (Some content)
  show ?thesis
  proof (cases "\<exists>line \<in> set (readlines content). malformed_line line")
    case True
    with Some trim_params_by_file_malformed [of fs filename content h params]
    show ?thesis by auto
  next
    case False
    with Some trim_params_by_file_ok [of fs filename content h params]
    show ?thesis by simp
  qed
qed

theorem malformed_selection_line_witness:
  "snd (trim_params_by_file (\<lambda>_. Some broken_file) scenario_heap [0, 1, 2, 3] ''pfile'')
     \<in> {Inl ValueError, Inl IndexError}
   \<and> fst (trim_params_by_file (\<lambda>_. Some broken_file) scenario_heap [0, 1, 2, 3] ''pfile'')
       = scenario_heap"
proof -
  let ?r = "trim_params_by_file (\<lambda>_. Some broken_file) scenario_heap [0, 1, 2, 3] ''pfile''"
  note inst = malformed_selection_line
    [of "\<lambda>_. Some broken_file" scenario_heap "[0, 1, 2, 3]" "''pfile''"]
  have "\<exists>content. (\<lambda>_. Some broken_file) ''pfile'' = Some content
          \<and> (\<exists>line \<in> set (readlines content). malformed_line line)"
    using broken_file_malformed by simp
  with inst have fails: "snd ?r \<in> {Inl ValueError, Inl IndexError}" by blast
  then have "\<exists>e. snd ?r = Inl e" by auto
  with inst have "fst ?r = scenario_heap" by blast
  with fails show ?thesis by simp
qed

text \<open>
  C2. For a file without malformed line, selection by file returns, parameter by
  parameter in the order of \<open>params\<close>, one inclusion of the parameter for each directive
  whose row and column equal the parameter's; nothing is deduplicated. Processing one
  matching directive writes the directive's flag into \<open>allow_negative\<close> and appends the
  parameter once; the flag is \<open>Some True\<close> when a token after the second contains
  \<^verbatim>\<open>neg\<close> and is unset otherwise. A parameter matched by exactly one directive ends with
  that directive's flag, and a parameter that no directive matches is untouched. In
  \<open>main\<close>, the parameters chosen by file are appended to those chosen by type, again
  without deduplication.
\<close>

theorem by_file_selection:
  assumes "fs filename = Some content"
    and "\<forall>line \<in> set (readlines content). \<not> malformed_line line"
  shows "snd (trim_params_by_file fs h params filename) =
           Inr (concat (map (\<lambda>y. replicate
                  (length (filter (matches (h y)) (directives (readlines content)))) y) params))
     \<and> (matches (h x) t \<longrightarrow>
          match_temp_params x [t] (h, chosen)
            = (h(x := (h x)\<lparr>allow_negative := snd (snd t)\<rparr>), chosen @ [x]))
     \<and> (\<forall>line d. parse_line line = Inr (Some d) \<longrightarrow>
          snd (snd d) = (if \<exists>arg \<in> set (drop 2 (split (before_hash line))).
                              str_contains arg ''neg'' then Some True else None))
     \<and> (x \<in> set params \<and> filter (matches (h x)) (directives (readlines content)) = [t] \<longrightarrow>
          allow_negative (fst (trim_params_by_file fs h params filename) x) = snd (snd t))
     \<and> (filter (matches (h x)) (directives (readlines content)) = [] \<longrightarrow>
          fst (trim_params_by_file fs h params filename) x = h x)
     \<and> (pfile opts = Some filename \<and> filename \<noteq> [] \<and> read_file w = fs \<longrightarrow>
          snd (snd (select_params w opts h params)) =
            Inr (trim_params_by_type h params (selected_ptypes opts) @
                 concat (map (\<lambda>y. replicate
                   (length (filter (matches (h y)) (directives (readlines content)))) y) params)))"
proof -
  let ?ds = "directives (readlines content)"
  let ?by_file = "concat (map (\<lambda>y. replicate (length (filter (matches (h y)) ?ds)) y) params)"
  have ok: "trim_params_by_file fs h params filename =
     ((\<lambda>y. if y \<in> set params then apply_last ?ds (h y) else h y), Inr ?by_file)"
    using assms trim_params_by_file_ok [of fs filename content h params] by simp
  have chosen: "snd (trim_params_by_file fs h params filename) = Inr ?by_file"
    by (simp add: ok)
  have step: "matches (h x) t \<longrightarrow>
          match_temp_params x [t] (h, chosen)
            = (h(x := (h x)\<lparr>allow_negative := snd (snd t)\<rparr>), chosen @ [x])"
    by simp
  have flag: "\<forall>line d. parse_line line = Inr (Some d) \<longrightarrow>
          snd (snd d) = (if \<exists>arg \<in> set (drop 2 (split (before_hash line))).
                              str_contains arg ''neg'' then Some True else None)"
    using parse_line_flag by blast
  have one: "x \<in> set params \<and> filter (matches (h x)) ?ds = [t] \<longrightarrow>
          allow_negative (fst (trim_params_by_file fs h params filename) x) = snd (snd t)"
    by (simp add: ok apply_last_def)
  have none: "filter (matches (h x)) ?ds = [] \<longrightarrow>
          fst (trim_params_by_file fs h params filename) x = h x"
    by (simp add: ok apply_last_def)
  have by_type: "(if selected_ptypes opts \<noteq> []
                  then trim_params_by_type h params (selected_ptypes opts) else [])
                 = trim_params_by_type h params (selected_ptypes opts)"
    by (simp add: trim_params_by_type_filter)
  have both: "pfile opts = Some filename \<and> filename \<noteq> [] \<and> read_file w = fs \<longrightarrow>
          snd (snd (select_params w opts h params)) =
            Inr (trim_params_by_type h params (selected_ptypes opts) @ ?by_file)"
    by (simp add: select_params_def by_type ok del: trim_params_by_type.simps)
  from chosen step flag one none both show ?thesis by blast
qed

text \<open>
  The scenario: the file \<^verbatim>\<open>100 1\<close>, \<^verbatim>\<open>100 2 neg\<close>, \<^verbatim>\<open>200 1 # comment\<close> against the
  parameters \<open>(100, 1)\<close>, \<open>(100, 2)\<close>, \<open>(200, 1)\<close>, \<open>(300, 1)\<close>. With the type \<open>be\<close> also
  selected, the parameter \<open>(100, 1)\<close> is chosen twice.
\<close>

theorem by_file_selection_witness:
  "snd (trim_params_by_file (\<lambda>_. Some scenario_file) scenario_heap [0, 1, 2, 3] ''pfile'')
     = Inr [0, 1, 2]
   \<and> allow_negative
        (fst (trim_params_by_file (\<lambda>_. Some scenario_file) scenario_heap [0, 1, 2, 3] ''pfile'') 1)
       = Some True
   \<and> allow_negative
        (fst (trim_params_by_file (\<lambda>_. Some scenario_file) scenario_heap [0, 1, 2, 3] ''pfile'') 0)
       = None
   \<and> allow_negative
        (fst (trim_params_by_file (\<lambda>_. Some scenario_file) scenario_heap [0, 1, 2, 3] ''pfile'') 2)
       = None
   \<and> fst (trim_params_by_file (\<lambda>_. Some scenario_file) scenario_heap [0, 1, 2, 3] ''pfile'') 3
       = scenario_heap 3
   \<and> snd (snd (select_params scenario_world
                 (no_opts\<lparr>pfile := Some ''pfile'', ptypes := [''be'']\<rparr>)
                 scenario_heap [0, 1, 2, 3]))
       = Inr [0, 0, 1, 2]"
proof -
  note inst = by_file_selection [of "\<lambda>_. Some scenario_file" "''pfile''" scenario_file,
      OF refl scenario_file_wellformed,
      where h = scenario_heap and params = "[0, 1, 2, 3]" and chosen = "[]"
        and opts = "no_opts\<lparr>pfile := Some ''pfile'', ptypes := [''be'']\<rparr>"
        and w = scenario_world]
  have m0: "filter (matches (scenario_heap 0)) (directives (readlines scenario_file))
              = [(100, 1, None)]"
    and m1: "filter (matches (scenario_heap 1)) (directives (readlines scenario_file))
              = [(100, 2, Some True)]"
    and m2: "filter (matches (scenario_heap 2)) (directives (readlines scenario_file))
              = [(200, 1, None)]"
    and m3: "filter (matches (scenario_heap 3)) (directives (readlines scenario_file)) = []"
    by (simp_all add: scenario_file_directives scenario_heap_def mk_param_def matches_def)
  have chosen: "snd (trim_params_by_file (\<lambda>_. Some scenario_file) scenario_heap
                  [0, 1, 2, 3] ''pfile'') = Inr [0, 1, 2]"
    using inst [where x = 0 and t = "(100, 1, None)"] m0 m1 m2 m3 by simp
  have f1: "allow_negative (fst (trim_params_by_file (\<lambda>_. Some scenario_file) scenario_heap
                  [0, 1, 2, 3] ''pfile'') 1) = Some True"
    using inst [where x = 1 and t = "(100, 2, Some True)"] m1 by simp
  have f0: "allow_negative (fst (trim_params_by_file (\<lambda>_. Some scenario_file) scenario_heap
                  [0, 1, 2, 3] ''pfile'') 0) = None"
    using inst [where x = 0 and t = "(100, 1, None)"] m0 by simp
  have f2: "allow_negative (fst (trim_params_by_file (\<lambda>_. Some scenario_file) scenario_heap
                  [0, 1, 2, 3] ''pfile'') 2) = None"
    using inst [where x = 2 and t = "(200, 1, None)"] m2 by simp
  have f3: "fst (trim_params_by_file (\<lambda>_. Some scenario_file) scenario_heap
                  [0, 1, 2, 3] ''pfile'') 3 = scenario_heap 3"
    using inst [where x = 3 and t = "(100, 1, None)"] m3 by simp
  have by_type: "trim_params_by_type scenario_heap [0, 1, 2, 3]
                   (selected_ptypes (no_opts\<lparr>pfile := Some ''pfile'', ptypes := [''be'']\<rparr>)) = [0]"
    by (simp add: selected_ptypes_def no_opts_def scenario_heap_def mk_param_def)
  have both: "snd (snd (select_params scenario_world
                 (no_opts\<lparr>pfile := Some ''pfile'', ptypes := [''be'']\<rparr>)
                 scenario_heap [0, 1, 2, 3])) = Inr [0, 0, 1, 2]"
    using inst [where x = 0 and t = "(100, 1, None)"] m0 m1 m2 m3 by_type
    by (simp add: scenario_world_def no_opts_def)
  from chosen f1 f0 f2 f3 both show ?thesis by simp
qed

text \<open>
  C10. For a file without malformed line and a parameter of \<open>params\<close> that some
  directive matches, every match overwrites \<open>allow_negative\<close>, so after the selection
  the parameter holds the flag of the last directive of the file that matches it. All
  inclusions of the parameter in the output are the same reference, so each of them
  reads this one object with the last flag.
\<close>

theorem last_directive_wins:
  assumes "fs filename = Some content"
    and "\<forall>line \<in> set (readlines content). \<not> malformed_line line"
    and "x \<in> set params"
    and "filter (matches (h x)) (directives (readlines content)) \<noteq> []"
  shows "fst (trim_params_by_file fs h params filename) x =
           (h x)\<lparr>allow_negative :=
              snd (snd (last (filter (matches (h x)) (directives (readlines content)))))\<rparr>
     \<and> allow_negative (fst (trim_params_by_file fs h params filename) x) =
           snd (snd (last (filter (matches (h x)) (directives (readlines content)))))
     \<and> (\<exists>chosen. snd (trim_params_by_file fs h params filename) = Inr chosen
           \<and> filter (\<lambda>y. y = x) chosen =
               replicate (count_list params x *
                  length (filter (matches (h x)) (directives (readlines content)))) x
           \<and> map (fst (trim_params_by_file fs h params filename)) (filter (\<lambda>y. y = x) chosen) =
               replicate (count_list params x *
                  length (filter (matches (h x)) (directives (readlines content))))
                 ((h x)\<lparr>allow_negative :=
                    snd (snd (last (filter (matches (h x)) (directives (readlines content)))))\<rparr>))"
proof -
  let ?ds = "directives (readlines content)"
  let ?ms = "filter (matches (h x)) ?ds"
  let ?by_file = "concat (map (\<lambda>y. replicate (length (filter (matches (h y)) ?ds)) y) params)"
  let ?r = "trim_params_by_file fs h params filename"
  have ok: "?r = ((\<lambda>y. if y \<in> set params then apply_last ?ds (h y) else h y), Inr ?by_file)"
    using assms(1,2) trim_params_by_file_ok [of fs filename content h params] by simp
  have last: "apply_last ?ds (h x) = (h x)\<lparr>allow_negative := snd (snd (last ?ms))\<rparr>"
    using assms(4) by (simp add: apply_last_def split: list.splits)
  have obj: "fst ?r x = (h x)\<lparr>allow_negative := snd (snd (last ?ms))\<rparr>"
    using assms(3) by (simp add: ok last)
  then have flag: "allow_negative (fst ?r x) = snd (snd (last ?ms))"
    by simp
  have same: "filter (\<lambda>y. y = x) ?by_file = replicate (count_list params x * length ?ms) x"
    by (rule filter_eq_concat_replicate)
  have chosen: "snd ?r = Inr ?by_file"
    by (simp add: ok)
  have reads: "map (fst ?r) (filter (\<lambda>y. y = x) ?by_file) =
                 replicate (count_list params x * length ?ms)
                   ((h x)\<lparr>allow_negative := snd (snd (last ?ms))\<rparr>)"
    unfolding same using obj by simp
  from obj flag chosen same reads show ?thesis by blast
qed

text \<open>
  The file \<^verbatim>\<open>100 1 neg\<close>, \<^verbatim>\<open>100 1\<close>: the second line resets the flag that the first
  line set, and the parameter is chosen twice.
\<close>

theorem last_directive_wins_witness:
  "allow_negative
     (fst (trim_params_by_file (\<lambda>_. Some repeated_file) scenario_heap [0, 1, 2, 3] ''pfile'') 0)
     = None
   \<and> (\<exists>chosen. snd (trim_params_by_file (\<lambda>_. Some repeated_file) scenario_heap
                       [0, 1, 2, 3] ''pfile'') = Inr chosen
         \<and> filter (\<lambda>y. y = 0) chosen = [0, 0])"
proof -
  have ms: "filter (matches (scenario_heap 0)) (directives (readlines repeated_file))
              = [(100, 1, Some True), (100, 1, None)]"
    by (simp add: repeated_file_directives scenario_heap_def mk_param_def matches_def)
  have inside: "(0::nat) \<in> set [0, 1, 2, 3]"
    by simp
  have matched: "filter (matches (scenario_heap 0)) (directives (readlines repeated_file)) \<noteq> []"
    by (simp add: ms)
  from last_directive_wins [of "\<lambda>_. Some repeated_file" "''pfile''" repeated_file
      0 "[0, 1, 2, 3]" scenario_heap, OF refl repeated_file_wellformed inside matched]
  show ?thesis
    by (auto simp add: ms)
qed

subsection \<open>The usage check\<close>

lemma check_params_filter:
  "check_params h bd ad params =
     map (\<lambda>x. PrintNotInUse (h x))
       (filter (\<lambda>x. mm3_row (h x) \<notin> dom bd \<union> dom ad) params)"
  by (induction params) (simp_all add: all_rows_def)

text \<open>
  C7. The usage check prints a notice for exactly the selected parameters whose row is
  a key of neither dictionary, in the order of the selection. Only the row is consulted:
  with any other columns the same references are flagged. With the dictionaries of
  \<open>gather_values\<close>, a parameter whose row is the row of some bond or some angle of the
  structures is never flagged.
\<close>

theorem usage_check_rows:
  "check_params h bd ad params =
     map (\<lambda>x. PrintNotInUse (h x))
       (filter (\<lambda>x. mm3_row (h x) \<notin> dom bd \<union> dom ad) params)
   \<and> (x \<in> set params \<longrightarrow>
        (PrintNotInUse (h x) \<in> set (check_params h bd ad params)
           \<longleftrightarrow> mm3_row (h x) \<notin> dom bd \<union> dom ad))
   \<and> check_params (\<lambda>y. (h y)\<lparr>mm3_col := col y\<rparr>) bd ad params =
        map (\<lambda>x. PrintNotInUse ((h x)\<lparr>mm3_col := col x\<rparr>))
          (filter (\<lambda>x. mm3_row (h x) \<notin> dom bd \<union> dom ad) params)
   \<and> (mm3_row (h x) \<in> ff_row ` set (all_bonds mmos) \<union> ff_row ` set (all_angles mmos) \<longrightarrow>
        PrintNotInUse (h x)
          \<notin> set (check_params h (fst (gather_values mmos)) (snd (gather_values mmos)) params))"
proof -
  have list: "check_params h bd ad params =
     map (\<lambda>x. PrintNotInUse (h x))
       (filter (\<lambda>x. mm3_row (h x) \<notin> dom bd \<union> dom ad) params)"
    by (rule check_params_filter)
  have exact: "x \<in> set params \<longrightarrow>
        (PrintNotInUse (h x) \<in> set (check_params h bd ad params)
           \<longleftrightarrow> mm3_row (h x) \<notin> dom bd \<union> dom ad)"
    unfolding list by auto
  have column: "check_params (\<lambda>y. (h y)\<lparr>mm3_col := col y\<rparr>) bd ad params =
        map (\<lambda>x. PrintNotInUse ((h x)\<lparr>mm3_col := col x\<rparr>))
          (filter (\<lambda>x. mm3_row (h x) \<notin> dom bd \<union> dom ad) params)"
    by (simp add: check_params_filter)
  have used: "mm3_row (h x) \<in> ff_row ` set (all_bonds mmos) \<union> ff_row ` set (all_angles mmos) \<longrightarrow>
        PrintNotInUse (h x)
          \<notin> set (check_params h (fst (gather_values mmos)) (snd (gather_values mmos)) params)"
    by (auto simp add: check_params_filter gather_values_dom)
  from list exact column used show ?thesis by blast
qed

text \<open>
  The parameters of the scenario against bond values for row 100 and angle values for
  row 200: only \<open>(300, 1)\<close> is reported; \<open>(100, 2)\<close> shares its row with a bond and is not.
\<close>

theorem usage_check_rows_witness:
  "check_params scenario_heap [100 \<mapsto> [to_double 1 1]] [200 \<mapsto> [to_double 109 1]] [0, 1, 2, 3]
     = [PrintNotInUse (scenario_heap 3)]
   \<and> PrintNotInUse (scenario_heap 1)
       \<notin> set (check_params scenario_heap [100 \<mapsto> [to_double 1 1]] [200 \<mapsto> [to_double 109 1]] [0, 1, 2, 3])
   \<and> PrintNotInUse (scenario_heap 1)
       \<notin> set (check_params scenario_heap
                (fst (gather_values [\<lparr>structures =
                   [\<lparr>bonds = [\<lparr>ff_row = 100, ovalue = to_double 1 1\<rparr>], angles = []\<rparr>]\<rparr>]))
                (snd (gather_values [\<lparr>structures =
                   [\<lparr>bonds = [\<lparr>ff_row = 100, ovalue = to_double 1 1\<rparr>], angles = []\<rparr>]\<rparr>]))
                [0, 1, 2, 3])"
  using usage_check_rows [of scenario_heap "[100 \<mapsto> [to_double 1 1]]" "[200 \<mapsto> [to_double 109 1]]" "[0, 1, 2, 3]" 1
      "\<lambda>y. mm3_col (scenario_heap y)"
      "[\<lparr>structures = [\<lparr>bonds = [\<lparr>ff_row = 100, ovalue = to_double 1 1\<rparr>], angles = []\<rparr>]\<rparr>]"]
  by (simp add: scenario_heap_def mk_param_def all_bonds_def all_angles_def)

subsection \<open>The precondition of \<open>main\<close>\<close>

text \<open>
  C6. When averaging or the usage check is requested and no MacroModel file is given
  (the option is absent or empty), \<open>main\<close> raises the \<^verbatim>\<open>AssertionError\<close> of its
  \<^verbatim>\<open>assert\<close> with no event before it: the force field is not read, the selection file
  is not opened, no structure file is read and nothing is written. In every other case
  the first event is the reading of the force field.
\<close>

theorem missing_mmo_files:
  "((truthy (average opts) \<or> check opts) \<and> \<not> truthy (mmo opts) \<longrightarrow>
      main w opts = ([], Inl AssertionError))
   \<and> (\<not> ((truthy (average opts) \<or> check opts) \<and> \<not> truthy (mmo opts)) \<longrightarrow>
        (\<exists>evs r. main w opts = (ImportFF (ffpath opts) # evs, r)))"
proof -
  have raised: "(truthy (average opts) \<or> check opts) \<and> \<not> truthy (mmo opts) \<longrightarrow>
      main w opts = ([], Inl AssertionError)"
    by (simp add: main_def)
  have passed: "\<exists>evs r. main w opts = (ImportFF (ffpath opts) # evs, r)"
    if "\<not> ((truthy (average opts) \<or> check opts) \<and> \<not> truthy (mmo opts))"
  proof (cases "import_ff w (ffpath opts)")
    case None
    with that show ?thesis by (simp add: main_def)
  next
    case (Some st)
    obtain h ff_params where st: "st = (h, ff_params)"
      by (cases st)
    obtain ev1 h1 r1 where sel: "select_params w opts h ff_params = (ev1, h1, r1)"
      by (cases "select_params w opts h ff_params")
    show ?thesis
    proof (cases r1)
      case (Inl e)
      with that Some st sel show ?thesis by (simp add: main_def)
    next
      case (Inr params)
      obtain ev2 r2 where use: "use_mmos w opts h1 params = (ev2, r2)"
        by (cases "use_mmos w opts h1 params")
      with that Some st sel Inr show ?thesis
        by (cases r2) (simp_all add: main_def)
    qed
  qed
  from raised passed show ?thesis by blast
qed

theorem missing_mmo_files_witness:
  "main scenario_world (no_opts\<lparr>average := Some ''new.fld'', pfile := Some ''pfile''\<rparr>)
     = ([], Inl AssertionError)
   \<and> main scenario_world (no_opts\<lparr>check := True, mmo := Some []\<rparr>) = ([], Inl AssertionError)
   \<and> (\<exists>evs r. main scenario_world (no_opts\<lparr>pfile := Some ''pfile''\<rparr>)
                 = (ImportFF ''mm3.fld'' # evs, r))"
  using missing_mmo_files [of "no_opts\<lparr>average := Some ''new.fld'', pfile := Some ''pfile''\<rparr>"
           scenario_world]
    missing_mmo_files [of "no_opts\<lparr>check := True, mmo := Some []\<rparr>" scenario_world]
    missing_mmo_files [of "no_opts\<lparr>pfile := Some ''pfile''\<rparr>" scenario_world]
  by (simp add: no_opts_def truthy_def)

end
